theory Spec2Isabelle
  imports Main "HOL-Library.Sublist"
begin

section \<open>Thrown values and the recoverable-error classifier\<close>

text \<open>
  Source text handed to the REPL, and text produced by the compiler, are strings.
\<close>

type_synonym code = string

text \<open>
  What a \<^verbatim>\<open>catch (error)\<close> clause can receive. JavaScript lets any value be thrown.
  The classifier reads \<^verbatim>\<open>error.name\<close> and \<^verbatim>\<open>error.message\<close>, so two shapes matter:
  an object carrying a name and a message (every built-in error is one), and
  \<^verbatim>\<open>null\<close>/\<^verbatim>\<open>undefined\<close>, on which reading a property raises a TypeError.
  The message is the text the pattern is tested on. A thrown value that has no \<^verbatim>\<open>name\<close>
  is classified like an object whose name differs from \<^verbatim>\<open>SyntaxError\<close>.
\<close>

datatype thrown = Nullish | ErrorObject string string

datatype fault = TypeError

text \<open>
  \<^verbatim>\<open>/^(Unexpected end of input|Unexpected token)/.test(s)\<close>: the pattern is anchored at
  the start of the string and has two literal alternatives, tried in order.
  \<open>starts_with p s\<close> matches the literal \<open>p\<close> at the start of \<open>s\<close>, character by character.
\<close>

fun starts_with :: "string \<Rightarrow> string \<Rightarrow> bool" where
  "starts_with [] s = True"
| "starts_with (p # ps) [] = False"
| "starts_with (p # ps) (c # cs) = (if p = c then starts_with ps cs else False)"

definition recoverable_pattern_test :: "string \<Rightarrow> bool" where
  "recoverable_pattern_test s =
     (if starts_with ''Unexpected end of input'' s then True
      else starts_with ''Unexpected token'' s)"

text \<open>
  \<^verbatim>\<open>isRecoverableError\<close> of \<^verbatim>\<open>src/Repl.ts\<close> (lines 60-66):
  \<^verbatim>\<open>
  private isRecoverableError = error => {
    if (error.name === "SyntaxError") {
      return /^(Unexpected end of input|Unexpected token)/.test(error.message);
    }
    return false;
  };
  \<close>
\<close>

fun isRecoverableError :: "thrown \<Rightarrow> fault + bool" where
  "isRecoverableError Nullish = Inl TypeError"
| "isRecoverableError (ErrorObject name message) =
     (if name = ''SyntaxError'' then Inr (recoverable_pattern_test message)
      else Inr False)"

text \<open>
  The same method as the second REPL class of the repository declares it
  (\<^verbatim>\<open>unnamed/part_000\<close>, lines 21-27), translated on its own.
\<close>

fun isRecoverableError_part_000 :: "thrown \<Rightarrow> fault + bool" where
  "isRecoverableError_part_000 Nullish = Inl TypeError"
| "isRecoverableError_part_000 (ErrorObject name message) =
     (if name = ''SyntaxError'' then
        Inr (if starts_with ''Unexpected end of input'' message then True
             else starts_with ''Unexpected token'' message)
      else Inr False)"

section \<open>Collaborators, contexts and traces\<close>

text \<open>
  A call to a collaborator (the TypeScript compiler, the \<^verbatim>\<open>vm\<close> module), once awaited
  where the source awaits it, ends in one of three ways: it yields a value, it throws
  (or its promise rejects), or it never comes back (a loop that does not end, a promise
  that never settles).
\<close>

datatype 'a outcome = Done 'a | Raised thrown | Hangs

text \<open>
  The shared execution context is the JavaScript global object (\<^verbatim>\<open>useGlobal: true\<close>,
  \<^verbatim>\<open>vm.runInThisContext\<close>): a mutable mapping from names to values. A value is either the
  closure \<^verbatim>\<open>(...args) => handler(this, ...args)\<close> that \<^verbatim>\<open>registerCustomMethods\<close> stores
  for a handler, or any other value.
\<close>

datatype ('h, 'v) js_value = CustomMethod 'h | Plain 'v

type_synonym ('h, 'v) ctx = "string \<rightharpoonup> ('h, 'v) js_value"

text \<open>
  \<^verbatim>\<open>vm.runInThisContext\<close> runs a text against the context; the model returns how the
  run ended together with the context as the run left it (a run that throws keeps the
  changes it made before throwing).
\<close>

type_synonym ('h, 'v) runner = "code \<Rightarrow> ('h, 'v) ctx \<Rightarrow> 'v outcome \<times> ('h, 'v) ctx"

text \<open>
  The arguments the completion callback is called with. First argument: \<^verbatim>\<open>null\<close>,
  \<^verbatim>\<open>new Recoverable(error)\<close>, or the caught error itself. Second argument: \<^verbatim>\<open>null\<close>,
  nothing (\<^verbatim>\<open>undefined\<close>), or the value produced.
\<close>

datatype callback_err = ErrNull | ErrRecoverable thrown | ErrThrown thrown

datatype 'v callback_res = ResNull | ResUndefined | ResValue 'v

text \<open>The calls that leave the code under study, in the order they are made.\<close>

datatype 'v event =
    ProcessTopLevelAwait code
  | TsCompile string code
  | RunInThisContext code
  | Callback callback_err "'v callback_res"

fun is_callback :: "'v event \<Rightarrow> bool" where
  "is_callback (Callback err res) = True"
| "is_callback (ProcessTopLevelAwait c) = False"
| "is_callback (TsCompile f c) = False"
| "is_callback (RunInThisContext c) = False"

definition callback_count :: "'v event list \<Rightarrow> nat" where
  "callback_count tr = length (filter is_callback tr)"

section \<open>The compiler adapter\<close>

text \<open>
  \<^verbatim>\<open>a || b\<close> on a value that is a string or \<^verbatim>\<open>null\<close>: \<^verbatim>\<open>null\<close> and the empty string are
  falsy, every other string is kept.
\<close>

fun or_else :: "code option \<Rightarrow> code \<Rightarrow> code" where
  "or_else None b = b"
| "or_else (Some a) b = (if a = [] then b else a)"

text \<open>
  \<^verbatim>\<open>Compiler.compile\<close> (\<^verbatim>\<open>unnamed/part_002\<close>, lines 6-10):
  \<^verbatim>\<open>
  public compile(fileName: string, code: string) {
    const resultCode = processTopLevelAwait(code) || code;
    return this.tsCompiler.compile(fileName, resultCode);
  }
  \<close>
  \<^verbatim>\<open>processTopLevelAwait\<close> comes from the package \<^verbatim>\<open>node-repl-await\<close> and the TypeScript
  compiler is injected through the constructor; both are parameters here.
  \<^verbatim>\<open>processTopLevelAwait\<close> has the type \<^verbatim>\<open>(src: string) => string | null\<close>: the rewritten
  text, or \<^verbatim>\<open>null\<close> when it finds no top-level \<^verbatim>\<open>await\<close> to rewrite.
  \<open>resultCode\<close> is the statement transform: the first line of the method.
\<close>

definition resultCode :: "(code \<Rightarrow> code option) \<Rightarrow> code \<Rightarrow> code" where
  "resultCode processTopLevelAwait code = or_else (processTopLevelAwait code) code"

definition compile ::
  "(code \<Rightarrow> code option) \<Rightarrow> (string \<Rightarrow> code \<Rightarrow> code outcome) \<Rightarrow>
   string \<Rightarrow> code \<Rightarrow> 'v event list \<times> code outcome" where
  "compile processTopLevelAwait tsCompiler fileName code =
     (let rewritten = processTopLevelAwait code;
          tr1 = [ProcessTopLevelAwait code];
          text = or_else rewritten code;
          tr2 = tr1 @ [TsCompile fileName text]
      in (tr2, tsCompiler fileName text))"

section \<open>The evaluation function\<close>

text \<open>
  What one call of \<^verbatim>\<open>evaluateCode\<close> does: the context it started in, the calls it made,
  the context it left, and how the call itself ended: it returned, an exception left it
  (for the \<^verbatim>\<open>async\<close> variant: its promise rejected), or it never finished.
\<close>

datatype completion = Returned | Escaped fault | NeverReturns

record ('h, 'v) evaluation =
  global_before :: "('h, 'v) ctx"
  trace :: "'v event list"
  global_after :: "('h, 'v) ctx"
  completion :: completion

text \<open>
  The \<^verbatim>\<open>catch (error)\<close> block of \<^verbatim>\<open>evaluateCode\<close> in \<^verbatim>\<open>src/Repl.ts\<close> (lines 85-91):
  \<^verbatim>\<open>
  if (this.isRecoverableError(error)) {
    return callback(new Recoverable(error), null);
  }
  return callback(error, null);
  \<close>
  It yields the calls it adds and how the function ends. An exception raised inside
  the block is not caught by it.
\<close>

definition evaluateCode_catch :: "thrown \<Rightarrow> 'v event list \<times> completion" where
  "evaluateCode_catch error =
     (case isRecoverableError error of
        Inl f \<Rightarrow> ([], Escaped f)
      | Inr recoverable \<Rightarrow>
          if recoverable then ([Callback (ErrRecoverable error) ResNull], Returned)
          else ([Callback (ErrThrown error) ResNull], Returned))"

text \<open>
  \<^verbatim>\<open>evaluateCode\<close> of \<^verbatim>\<open>src/Repl.ts\<close> (lines 72-94):
  \<^verbatim>\<open>
  private evaluateCode = async (code, _, fileName, callback) => {
    let result;
    try {
      const compiledCode = await this.compiler.compile(fileName, code);
      result = await vm.runInThisContext(compiledCode);
    } catch (error) {
      (the block above)
    }
    callback(null, result);
  };
  \<close>
  Each \<^verbatim>\<open>await\<close> resumes only when the awaited step is done or has thrown.
\<close>

definition evaluateCode ::
  "(code \<Rightarrow> code option) \<Rightarrow> (string \<Rightarrow> code \<Rightarrow> code outcome) \<Rightarrow> ('h, 'v) runner \<Rightarrow>
   ('h, 'v) ctx \<Rightarrow> code \<Rightarrow> string \<Rightarrow> ('h, 'v) evaluation" where
  "evaluateCode processTopLevelAwait tsCompiler runInThisContext g code fileName =
     (case compile processTopLevelAwait tsCompiler fileName code of
        (tr, Hangs) \<Rightarrow>
          \<lparr>global_before = g, trace = tr, global_after = g, completion = NeverReturns\<rparr>
      | (tr, Raised error) \<Rightarrow>
          (case evaluateCode_catch error of
             (cb, fin) \<Rightarrow>
               \<lparr>global_before = g, trace = tr @ cb, global_after = g, completion = fin\<rparr>)
      | (tr, Done compiledCode) \<Rightarrow>
          (case runInThisContext compiledCode g of
             (Hangs, g') \<Rightarrow>
               \<lparr>global_before = g, trace = tr @ [RunInThisContext compiledCode],
                global_after = g', completion = NeverReturns\<rparr>
           | (Raised error, g') \<Rightarrow>
               (case evaluateCode_catch error of
                  (cb, fin) \<Rightarrow>
                    \<lparr>global_before = g, trace = tr @ [RunInThisContext compiledCode] @ cb,
                     global_after = g', completion = fin\<rparr>)
           | (Done result, g') \<Rightarrow>
               \<lparr>global_before = g,
                trace = tr @ [RunInThisContext compiledCode, Callback ErrNull (ResValue result)],
                global_after = g', completion = Returned\<rparr>))"

text \<open>
  \<^verbatim>\<open>evaluateCode\<close> of the second REPL class (\<^verbatim>\<open>unnamed/part_000\<close>, lines 33-50):
  \<^verbatim>\<open>
  private evaluateCode = (code, _, __, callback) => {
    let result;
    try {
      result = vm.runInThisContext(code);
    } catch (error) {
      if (this.isRecoverableError(error)) {
        return callback(new Recoverable(error));
      }
    }
    callback(null, result);
  };
  \<close>
  There is no compile step. When the caught error is not recoverable the \<^verbatim>\<open>catch\<close> block
  ends without returning, and control reaches the last line with \<^verbatim>\<open>result\<close> unassigned.
\<close>

definition evaluateCode_part_000 ::
  "('h, 'v) runner \<Rightarrow> ('h, 'v) ctx \<Rightarrow> code \<Rightarrow> ('h, 'v) evaluation" where
  "evaluateCode_part_000 runInThisContext g code =
     (case runInThisContext code g of
        (Hangs, g') \<Rightarrow>
          \<lparr>global_before = g, trace = [RunInThisContext code],
           global_after = g', completion = NeverReturns\<rparr>
      | (Raised error, g') \<Rightarrow>
          (case isRecoverableError_part_000 error of
             Inl f \<Rightarrow>
               \<lparr>global_before = g, trace = [RunInThisContext code],
                global_after = g', completion = Escaped f\<rparr>
           | Inr recoverable \<Rightarrow>
               if recoverable then
                 \<lparr>global_before = g,
                  trace = [RunInThisContext code, Callback (ErrRecoverable error) ResUndefined],
                  global_after = g', completion = Returned\<rparr>
               else
                 \<lparr>global_before = g,
                  trace = [RunInThisContext code, Callback ErrNull ResUndefined],
                  global_after = g', completion = Returned\<rparr>)
      | (Done result, g') \<Rightarrow>
          \<lparr>global_before = g,
           trace = [RunInThisContext code, Callback ErrNull (ResValue result)],
           global_after = g', completion = Returned\<rparr>)"

section \<open>A session: one evaluation per submitted input\<close>

text \<open>
  \<^verbatim>\<open>startReplServer\<close> hands \<^verbatim>\<open>evaluateCode\<close> to Node's \<^verbatim>\<open>repl.start\<close> as its \<^verbatim>\<open>eval\<close>
  option, with \<^verbatim>\<open>useGlobal: true\<close>. The server calls it once for every input it submits,
  one call after the other, always against the one global object. When an exception
  leaves the call, the server reports it and goes on with the next input; only a call
  that never finishes leaves the session without a further turn.
\<close>

fun turns ::
  "(code \<Rightarrow> code option) \<Rightarrow> (string \<Rightarrow> code \<Rightarrow> code outcome) \<Rightarrow> ('h, 'v) runner \<Rightarrow>
   string \<Rightarrow> ('h, 'v) ctx \<Rightarrow> code list \<Rightarrow> ('h, 'v) evaluation list" where
  "turns processTopLevelAwait tsCompiler runInThisContext fileName g [] = []"
| "turns processTopLevelAwait tsCompiler runInThisContext fileName g (code # rest) =
     (let r = evaluateCode processTopLevelAwait tsCompiler runInThisContext g code fileName
      in if completion r = NeverReturns
         then [r]
         else r # turns processTopLevelAwait tsCompiler runInThisContext fileName
                    (global_after r) rest)"

section \<open>The session object and its custom methods\<close>

text \<open>
  The fields of class \<^verbatim>\<open>Repl\<close> in \<^verbatim>\<open>src/Repl.ts\<close>: the registry \<^verbatim>\<open>customMethods\<close>, an
  object literal \<^verbatim>\<open>{}\<close> used as a dictionary from method name to handler and options, and
  \<^verbatim>\<open>server\<close>, undefined until \<^verbatim>\<open>run\<close>. The global object is part of the state because the
  server is started with \<^verbatim>\<open>useGlobal: true\<close>, which makes \<^verbatim>\<open>server.context\<close> the global
  object.

  The registry object has two parts. \<open>customMethods\<close> is the list of its own entries, each key
  once, as \<^verbatim>\<open>Object.entries\<close> enumerates them. \<open>customMethods_prototype\<close> is its prototype:
  \<open>None\<close> while it is still \<^verbatim>\<open>Object.prototype\<close>, and the handler and options of the object
  that an assignment to the key \<^verbatim>\<open>__proto__\<close> has put in its place.
\<close>

record REPLServer =
  prompt :: string
  useGlobal :: bool
  commands :: "(string \<times> string) list"

record ('h, 'o, 'v) repl =
  customMethods :: "(string \<times> 'h \<times> 'o) list"
  customMethods_prototype :: "('h \<times> 'o) option"
  server :: "REPLServer option"
  global :: "('h, 'v) ctx"

text \<open>\<^verbatim>\<open>obj[key] = value\<close> for an ordinary key: an existing key keeps its place and gets
  the new value, a new key is added.\<close>

fun set_property :: "string \<Rightarrow> 'a \<Rightarrow> (string \<times> 'a) list \<Rightarrow> (string \<times> 'a) list" where
  "set_property key v [] = [(key, v)]"
| "set_property key v ((k, w) # rest) =
     (if k = key then (key, v) # rest else (k, w) # set_property key v rest)"

text \<open>The constructor leaves the registry empty and the server undefined; the global
  object is whatever the process has.\<close>

definition new_Repl :: "('h, 'v) ctx \<Rightarrow> ('h, 'o, 'v) repl" where
  "new_Repl g =
     \<lparr>customMethods = [], customMethods_prototype = None, server = None, global = g\<rparr>"

text \<open>
  \<^verbatim>\<open>addMethod\<close> (lines 246-255):
  \<^verbatim>\<open>
  this.customMethods[methodName] = { handler, options };
  \<close>
  On an object literal the key \<^verbatim>\<open>__proto__\<close> is the accessor inherited from
  \<^verbatim>\<open>Object.prototype\<close>: assigning an object to it replaces the prototype of the registry
  and creates no entry. Every other key is an ordinary property.
\<close>

definition addMethod ::
  "string \<Rightarrow> 'h \<Rightarrow> 'o \<Rightarrow> ('h, 'o, 'v) repl \<Rightarrow> ('h, 'o, 'v) repl" where
  "addMethod methodName handler options r =
     (if methodName = ''__proto__''
      then r\<lparr>customMethods_prototype := Some (handler, options)\<rparr>
      else r\<lparr>customMethods :=
               set_property methodName (handler, options) (customMethods r)\<rparr>)"

text \<open>\<^verbatim>\<open>startReplServer\<close> (lines 130-158) prints the banner and stores the server that
  \<^verbatim>\<open>start\<close> returns.\<close>

definition startReplServer :: "('h, 'o, 'v) repl \<Rightarrow> ('h, 'o, 'v) repl" where
  "startReplServer r =
     r\<lparr>server := Some \<lparr>prompt = ''> '', useGlobal = True, commands = []\<rparr>\<rparr>"

text \<open>
  \<^verbatim>\<open>registerCustomMethods\<close> (lines 194-200):
  \<^verbatim>\<open>
  Object.entries(this.customMethods).forEach(([methodName, { handler }]) => {
    this.server.context[methodName] = (...args: any[]) => {
      return handler(this, ...args);
    };
  });
  \<close>
  The loop body reads \<^verbatim>\<open>this.server.context\<close>, which raises a TypeError while the server
  is undefined. The loop runs over the own entries only; no entry has the key
  \<^verbatim>\<open>__proto__\<close>, since entries are made by \<^verbatim>\<open>addMethod\<close> alone.
\<close>

fun register_entries ::
  "(string \<times> 'h \<times> 'o) list \<Rightarrow> ('h, 'o, 'v) repl \<Rightarrow> fault + ('h, 'o, 'v) repl" where
  "register_entries [] r = Inr r"
| "register_entries ((methodName, handler, options) # rest) r =
     (case server r of
        None \<Rightarrow> Inl TypeError
      | Some s \<Rightarrow>
          register_entries rest (r\<lparr>global := (global r)(methodName \<mapsto> CustomMethod handler)\<rparr>))"

definition registerCustomMethods :: "('h, 'o, 'v) repl \<Rightarrow> fault + ('h, 'o, 'v) repl" where
  "registerCustomMethods r = register_entries (customMethods r) r"

text \<open>\<^verbatim>\<open>defineCustomCommands\<close> (lines 172-186) defines the dot-command \<^verbatim>\<open>customApi\<close> on
  the server.\<close>

definition defineCustomCommands :: "('h, 'o, 'v) repl \<Rightarrow> fault + ('h, 'o, 'v) repl" where
  "defineCustomCommands r =
     (case server r of
        None \<Rightarrow> Inl TypeError
      | Some s \<Rightarrow>
          Inr (r\<lparr>server := Some (s\<lparr>commands :=
                 set_property ''customApi''
                   ''View a list of available global methods/properties'' (commands s)\<rparr>)\<rparr>))"

text \<open>
  \<^verbatim>\<open>run\<close> (lines 206-226):
  \<^verbatim>\<open>
  this.startReplServer();
  this.registerCustomMethods();
  this.defineCustomCommands();
  \<close>
\<close>

definition run :: "('h, 'o, 'v) repl \<Rightarrow> fault + ('h, 'o, 'v) repl" where
  "run r =
     (case registerCustomMethods (startReplServer r) of
        Inl f \<Rightarrow> Inl f
      | Inr r' \<Rightarrow> defineCustomCommands r')"

section \<open>Sample collaborators\<close>

text \<open>
  Concrete collaborators on which the functions above can be run. Each answers a
  handful of inputs the way the real one does and treats every other text as a program
  without effect.
\<close>

definition sample_processTopLevelAwait :: "code \<Rightarrow> code option" where
  "sample_processTopLevelAwait code =
     (if code = ''await 42'' then Some ''(async () => { return (await 42) })()'' else None)"

definition sample_tsCompiler :: "string \<Rightarrow> code \<Rightarrow> code outcome" where
  "sample_tsCompiler fileName code = Done code"

definition sample_runInThisContext :: "(string, string) runner" where
  "sample_runInThisContext code g =
     (if code = ''x = 5'' then (Done ''5'', g(''x'' \<mapsto> Plain ''5''))
      else if code = ''delete x'' then (Done ''true'', g(''x'' := None))
      else if code = ''x'' then
        (case g ''x'' of
           None \<Rightarrow> (Raised (ErrorObject ''ReferenceError'' ''x is not defined''), g)
         | Some (Plain v) \<Rightarrow> (Done v, g)
         | Some (CustomMethod h) \<Rightarrow> (Done ''[Function (anonymous)]'', g))
      else if code = ''1 + 1'' then (Done ''2'', g)
      else if code = ''(async () => { return (await 42) })()'' then (Done ''42'', g)
      else if code = ''function f() {'' then
        (Raised (ErrorObject ''SyntaxError'' ''Unexpected end of input''), g)
      else if code = ''throw null'' then (Raised Nullish, g)
      else if code = ''while (true) {}'' then (Hangs, g)
      else (Done ''undefined'', g))"

definition sample_global :: "(string, string) ctx" where
  "sample_global = Map.empty"

section \<open>Properties of the classifier\<close>

lemma starts_with_prefix: "starts_with p s = prefix p s"
  by (induction p s rule: starts_with.induct) simp_all

lemma recoverable_pattern_test_prefix:
  "recoverable_pattern_test s =
     (prefix ''Unexpected end of input'' s \<or> prefix ''Unexpected token'' s)"
  unfolding recoverable_pattern_test_def starts_with_prefix by simp

text \<open>
  Claim C2. For every error with a name and a message, \<open>isRecoverableError\<close> answers true
  exactly when the name is \<open>SyntaxError\<close> and the message begins, character for character,
  with \<open>Unexpected end of input\<close> or with \<open>Unexpected token\<close>; for every other name and
  message it answers false, and it never fails on such an error. Both REPL classes agree.
\<close>

theorem isRecoverableError_iff:
  "isRecoverableError (ErrorObject name message) =
     Inr (name = ''SyntaxError'' \<and>
          (prefix ''Unexpected end of input'' message \<or> prefix ''Unexpected token'' message))
   \<and> isRecoverableError_part_000 (ErrorObject name message) =
     Inr (name = ''SyntaxError'' \<and>
          (prefix ''Unexpected end of input'' message \<or> prefix ''Unexpected token'' message))"
  by (simp add: recoverable_pattern_test_prefix starts_with_prefix)

text \<open>
  Claim C10. The classifier of \<^verbatim>\<open>src/Repl.ts\<close> and the classifier of
  \<^verbatim>\<open>unnamed/part_000\<close> give the same answer on every thrown value, the values on
  which both fail included.
\<close>

theorem isRecoverableError_variants_agree:
  "isRecoverableError_part_000 error = isRecoverableError error"
  by (cases error) (simp_all add: recoverable_pattern_test_def)

section \<open>Properties of the compiler adapter\<close>

lemma compile_unfold:
  "compile processTopLevelAwait tsCompiler fileName code =
     ([ProcessTopLevelAwait code, TsCompile fileName (resultCode processTopLevelAwait code)],
      tsCompiler fileName (resultCode processTopLevelAwait code))"
  by (simp add: compile_def resultCode_def Let_def)

text \<open>
  Claim C4. For every file name \<open>f\<close> and text \<open>s\<close>, \<open>compile\<close> makes exactly two calls, in
  this order: the top-level-await transform on \<open>s\<close>, then the injected compiler on the
  same \<open>f\<close> and the transformed text, whose outcome it hands back. The transformed text is
  the rewrite that \<^verbatim>\<open>processTopLevelAwait\<close> returns, and \<open>s\<close> itself when it returns \<^verbatim>\<open>null\<close>
  (or the empty string). \<open>evaluateCode\<close> of \<^verbatim>\<open>src/Repl.ts\<close> starts every turn with these two
  calls, made with its own file name and code.
\<close>

theorem compile_transforms_then_delegates:
  "compile processTopLevelAwait tsCompiler f s =
     (case processTopLevelAwait s of
        None \<Rightarrow> ([ProcessTopLevelAwait s, TsCompile f s], tsCompiler f s)
      | Some rewritten \<Rightarrow>
          if rewritten = [] then ([ProcessTopLevelAwait s, TsCompile f s], tsCompiler f s)
          else ([ProcessTopLevelAwait s, TsCompile f rewritten], tsCompiler f rewritten))
   \<and> take 2 (trace (evaluateCode processTopLevelAwait tsCompiler runInThisContext g s f)) =
     (case processTopLevelAwait s of
        None \<Rightarrow> [ProcessTopLevelAwait s, TsCompile f s]
      | Some rewritten \<Rightarrow>
          if rewritten = [] then [ProcessTopLevelAwait s, TsCompile f s]
          else [ProcessTopLevelAwait s, TsCompile f rewritten])"
  by (simp add: evaluateCode_def compile_def Let_def
      split: prod.splits outcome.splits option.splits)

text \<open>The text \<^verbatim>\<open>await 42\<close> reaches the compiler in its rewritten form.\<close>

lemma compile_passes_rewritten_text:
  "compile sample_processTopLevelAwait sample_tsCompiler ''repl'' ''await 42'' =
     ([ProcessTopLevelAwait ''await 42'',
       TsCompile ''repl'' ''(async () => { return (await 42) })()''],
      Done ''(async () => { return (await 42) })()'')"
  by (simp add: compile_def Let_def sample_processTopLevelAwait_def sample_tsCompiler_def)

text \<open>
  Claim C5. A text in which \<^verbatim>\<open>processTopLevelAwait\<close> finds no top-level \<^verbatim>\<open>await\<close> (it
  answers \<^verbatim>\<open>null\<close>) comes out of the statement transform unchanged.
\<close>

theorem resultCode_unchanged:
  "processTopLevelAwait code = None \<Longrightarrow> resultCode processTopLevelAwait code = code"
  by (simp add: resultCode_def)

text \<open>The text \<^verbatim>\<open>1 + 1\<close> has no top-level \<^verbatim>\<open>await\<close> and is passed on as it is.\<close>

theorem resultCode_unchanged_witness:
  "sample_processTopLevelAwait ''1 + 1'' = None \<and>
   resultCode sample_processTopLevelAwait ''1 + 1'' = ''1 + 1''"
  using resultCode_unchanged [of sample_processTopLevelAwait "''1 + 1''"]
  by (simp add: sample_processTopLevelAwait_def)

section \<open>Properties of the evaluation function\<close>

lemma evaluateCode_catch_object:
  "evaluateCode_catch (ErrorObject name message) =
     (if name = ''SyntaxError'' \<and> recoverable_pattern_test message
      then ([Callback (ErrRecoverable (ErrorObject name message)) ResNull], Returned)
      else ([Callback (ErrThrown (ErrorObject name message)) ResNull], Returned))"
  by (simp add: evaluateCode_catch_def)

lemma callback_count_simps:
  "callback_count [] = 0"
  "callback_count (Callback e r # tr) = Suc (callback_count tr)"
  "callback_count (ProcessTopLevelAwait c # tr) = callback_count tr"
  "callback_count (TsCompile f c # tr) = callback_count tr"
  "callback_count (RunInThisContext c # tr) = callback_count tr"
  by (simp_all add: callback_count_def)

text \<open>
  In \<^verbatim>\<open>src/Repl.ts\<close> an error object thrown by the compile step or by the run is caught,
  and the callback is called once: with the error wrapped in \<^verbatim>\<open>Recoverable\<close> when the
  classifier accepts it, with the error itself otherwise.
\<close>

lemma evaluateCode_reports_error:
  assumes "tsCompiler fileName (resultCode processTopLevelAwait code)
             = Raised (ErrorObject name message)
         \<or> (\<exists>compiledCode g'.
               tsCompiler fileName (resultCode processTopLevelAwait code) = Done compiledCode
             \<and> runInThisContext compiledCode g = (Raised (ErrorObject name message), g'))"
  shows "completion (evaluateCode processTopLevelAwait tsCompiler runInThisContext g code fileName)
           = Returned
     \<and> filter is_callback
         (trace (evaluateCode processTopLevelAwait tsCompiler runInThisContext g code fileName)) =
       [Callback (if name = ''SyntaxError'' \<and> recoverable_pattern_test message
                  then ErrRecoverable (ErrorObject name message)
                  else ErrThrown (ErrorObject name message)) ResNull]"
  using assms
  by (auto simp: evaluateCode_def compile_unfold evaluateCode_catch_object)

text \<open>
  A thrown \<^verbatim>\<open>null\<close> is caught too, but the classifier then fails inside the \<^verbatim>\<open>catch\<close>
  block: no callback is made and the TypeError leaves the function, in both classes.
\<close>

lemma thrown_null_escapes:
  "evaluateCode sample_processTopLevelAwait sample_tsCompiler sample_runInThisContext
     sample_global ''throw null'' ''repl'' =
   \<lparr>global_before = sample_global,
    trace = [ProcessTopLevelAwait ''throw null'', TsCompile ''repl'' ''throw null'',
             RunInThisContext ''throw null''],
    global_after = sample_global, completion = Escaped TypeError\<rparr>
   \<and> evaluateCode_part_000 sample_runInThisContext sample_global ''throw null'' =
   \<lparr>global_before = sample_global, trace = [RunInThisContext ''throw null''],
    global_after = sample_global, completion = Escaped TypeError\<rparr>"
  by (simp add: evaluateCode_def evaluateCode_part_000_def compile_unfold resultCode_def
      evaluateCode_catch_def sample_tsCompiler_def sample_runInThisContext_def
      sample_processTopLevelAwait_def)

text \<open>
  Claim C1. Every error thrown while a turn compiles or runs is caught and handed to the
  callback: wrapped in \<^verbatim>\<open>Recoverable\<close> when recoverable, as itself otherwise. The class in
  \<^verbatim>\<open>unnamed/part_000\<close> does not do the second: evaluating \<^verbatim>\<open>x\<close> with no such binding
  throws a ReferenceError, which is not recoverable, and the callback is called with
  \<^verbatim>\<open>null\<close> for the error and \<^verbatim>\<open>undefined\<close> for the result. The class in \<^verbatim>\<open>src/Repl.ts\<close>
  passes the error itself on the same input.
\<close>

theorem part_000_swallows_error:
  "sample_runInThisContext ''x'' sample_global =
     (Raised (ErrorObject ''ReferenceError'' ''x is not defined''), sample_global)
   \<and> isRecoverableError_part_000 (ErrorObject ''ReferenceError'' ''x is not defined'') = Inr False
   \<and> trace (evaluateCode_part_000 sample_runInThisContext sample_global ''x'') =
       [RunInThisContext ''x'', Callback ErrNull ResUndefined]
   \<and> trace (evaluateCode sample_processTopLevelAwait sample_tsCompiler sample_runInThisContext
        sample_global ''x'' ''repl'') =
       [ProcessTopLevelAwait ''x'', TsCompile ''repl'' ''x'', RunInThisContext ''x'',
        Callback (ErrThrown (ErrorObject ''ReferenceError'' ''x is not defined'')) ResNull]"
  by (simp add: evaluateCode_def evaluateCode_part_000_def compile_unfold
      sample_tsCompiler_def sample_runInThisContext_def sample_processTopLevelAwait_def
      resultCode_def sample_global_def evaluateCode_catch_object)

text \<open>
  Claim C9, as amended. When the compile step and the run of a turn each come back, with
  a value or with an error object, the callback is called exactly once and the
  evaluation function returns; this holds for both classes.
\<close>

theorem callback_exactly_once:
  fixes runInThisContext :: "('h, 'v) runner"
  shows "(tsCompiler fileName (resultCode processTopLevelAwait code) \<noteq> Hangs \<longrightarrow>
          tsCompiler fileName (resultCode processTopLevelAwait code) \<noteq> Raised Nullish \<longrightarrow>
          (\<forall>compiledCode.
             tsCompiler fileName (resultCode processTopLevelAwait code) = Done compiledCode \<longrightarrow>
             fst (runInThisContext compiledCode g) \<noteq> Hangs \<and>
             fst (runInThisContext compiledCode g) \<noteq> Raised Nullish) \<longrightarrow>
          callback_count
            (trace (evaluateCode processTopLevelAwait tsCompiler runInThisContext g code fileName))
            = 1
          \<and> completion
              (evaluateCode processTopLevelAwait tsCompiler runInThisContext g code fileName)
            = Returned)
       \<and> (fst (runInThisContext code g) \<noteq> Hangs \<longrightarrow>
          fst (runInThisContext code g) \<noteq> Raised Nullish \<longrightarrow>
          callback_count (trace (evaluateCode_part_000 runInThisContext g code)) = 1
          \<and> completion (evaluateCode_part_000 runInThisContext g code) = Returned)"
proof (intro conjI impI)
  let ?c = "tsCompiler fileName (resultCode processTopLevelAwait code)"
  let ?e = "evaluateCode processTopLevelAwait tsCompiler runInThisContext g code fileName"
  assume c1: "?c \<noteq> Hangs" and c2: "?c \<noteq> Raised Nullish"
    and c3: "\<forall>compiledCode. ?c = Done compiledCode \<longrightarrow>
               fst (runInThisContext compiledCode g) \<noteq> Hangs \<and>
               fst (runInThisContext compiledCode g) \<noteq> Raised Nullish"
  have "callback_count (trace ?e) = 1 \<and> completion ?e = Returned"
  proof (cases ?c)
    case (Done compiledCode)
    obtain out g' where run: "runInThisContext compiledCode g = (out, g')"
      by (cases "runInThisContext compiledCode g")
    with c3 Done have out: "out \<noteq> Hangs" "out \<noteq> Raised Nullish" by auto
    show ?thesis
    proof (cases out)
      case (Done result)
      with \<open>?c = Done compiledCode\<close> run show ?thesis
        by (simp add: evaluateCode_def compile_unfold callback_count_simps)
    next
      case (Raised error)
      with out obtain name message where "error = ErrorObject name message"
        by (cases error) auto
      with Raised \<open>?c = Done compiledCode\<close> run show ?thesis
        by (simp add: evaluateCode_def compile_unfold callback_count_simps
            evaluateCode_catch_object)
    next
      case Hangs
      with out show ?thesis by simp
    qed
  next
    case (Raised error)
    with c2 obtain name message where "error = ErrorObject name message"
      by (cases error) auto
    with Raised show ?thesis
      by (simp add: evaluateCode_def compile_unfold callback_count_simps
          evaluateCode_catch_object)
  next
    case Hangs
    with c1 show ?thesis by simp
  qed
  then show "callback_count (trace ?e) = 1" and "completion ?e = Returned"
    by simp_all
next
  let ?e = "evaluateCode_part_000 runInThisContext g code"
  assume r1: "fst (runInThisContext code g) \<noteq> Hangs"
    and r2: "fst (runInThisContext code g) \<noteq> Raised Nullish"
  obtain out g' where run0: "runInThisContext code g = (out, g')"
    by (cases "runInThisContext code g")
  with r1 r2 have out0: "out \<noteq> Hangs" "out \<noteq> Raised Nullish" by auto
  have "callback_count (trace ?e) = 1 \<and> completion ?e = Returned"
  proof (cases out)
    case (Done result)
    with run0 show ?thesis
      by (simp add: evaluateCode_part_000_def callback_count_simps)
  next
    case (Raised error)
    with out0 obtain name message where "error = ErrorObject name message"
      by (cases error) auto
    with Raised run0 show ?thesis
      by (simp add: evaluateCode_part_000_def callback_count_simps)
  next
    case Hangs
    with out0 show ?thesis by simp
  qed
  then show "callback_count (trace ?e) = 1" and "completion ?e = Returned"
    by simp_all
qed

text \<open>An incomplete function declaration: one callback, carrying the recoverable error.\<close>

theorem callback_exactly_once_witness:
  "callback_count
     (trace (evaluateCode sample_processTopLevelAwait sample_tsCompiler sample_runInThisContext
        sample_global ''function f() {'' ''repl'')) = 1
   \<and> callback_count
     (trace (evaluateCode_part_000 sample_runInThisContext sample_global ''function f() {'')) = 1"
  using callback_exactly_once [of sample_tsCompiler "''repl''" sample_processTopLevelAwait
      "''function f() {''" sample_runInThisContext sample_global]
  by (simp add: sample_tsCompiler_def sample_runInThisContext_def sample_processTopLevelAwait_def
      resultCode_def)

text \<open>
  Claim C9 as stated fails: a run that never comes back leaves the callback uncalled, and
  so does a thrown \<^verbatim>\<open>null\<close>.
\<close>

theorem callback_never_invoked_counterexample:
  "callback_count
     (trace (evaluateCode sample_processTopLevelAwait sample_tsCompiler sample_runInThisContext
        sample_global ''while (true) {}'' ''repl'')) = 0
   \<and> callback_count
     (trace (evaluateCode_part_000 sample_runInThisContext sample_global ''while (true) {}'')) = 0
   \<and> callback_count
     (trace (evaluateCode sample_processTopLevelAwait sample_tsCompiler sample_runInThisContext
        sample_global ''throw null'' ''repl'')) = 0"
  by (simp add: evaluateCode_def evaluateCode_part_000_def compile_unfold
      sample_tsCompiler_def sample_runInThisContext_def sample_processTopLevelAwait_def
      resultCode_def callback_count_simps evaluateCode_catch_def)

section \<open>Properties of a session\<close>

text \<open>
  The evaluation function does not touch the context itself: a turn leaves it as it
  found it when the compile step fails, and as the run left it otherwise.
\<close>

lemma evaluateCode_global_before:
  "global_before (evaluateCode P T R g code fileName) = g"
  by (simp add: evaluateCode_def split: prod.splits outcome.splits)

lemma evaluateCode_global_after:
  "global_after (evaluateCode P T R g code fileName) =
     (case T fileName (resultCode P code) of
        Done compiledCode \<Rightarrow> snd (R compiledCode g)
      | Raised error \<Rightarrow> g
      | Hangs \<Rightarrow> g)"
  by (simp add: evaluateCode_def compile_unfold split: prod.splits outcome.splits)

lemma evaluateCode_ran:
  "T fileName (resultCode P code) = Done compiledCode \<Longrightarrow>
   RunInThisContext compiledCode \<in> set (trace (evaluateCode P T R g code fileName))"
  by (simp add: evaluateCode_def compile_unfold split: prod.splits outcome.splits)

text \<open>A name bound at the start of a turn is bound at its end, unless the run that the
  turn makes, from the context the turn started in, unbinds it.\<close>

lemma evaluateCode_keeps:
  fixes R :: "('h, 'v) runner"
  assumes "k \<in> dom g"
    and "\<forall>code'. RunInThisContext code' \<in> set (trace (evaluateCode P T R g code fileName)) \<longrightarrow>
           k \<in> dom (snd (R code' g))"
  shows "k \<in> dom (global_after (evaluateCode P T R g code fileName))"
proof (cases "T fileName (resultCode P code)")
  case (Done compiledCode)
  from Done have "RunInThisContext compiledCode \<in> set (trace (evaluateCode P T R g code fileName))"
    by (rule evaluateCode_ran)
  with assms have "k \<in> dom (snd (R compiledCode g))"
    by blast
  with Done show ?thesis by (simp add: evaluateCode_global_after)
next
  case (Raised error)
  with assms(1) show ?thesis by (simp add: evaluateCode_global_after)
next
  case Hangs
  with assms(1) show ?thesis by (simp add: evaluateCode_global_after)
qed

text \<open>Turn \<open>j\<close> of a session is the evaluation of input \<open>j\<close>.\<close>

lemma turns_nth:
  "j < length (turns P T R f g codes) \<Longrightarrow>
   turns P T R f g codes ! j =
     evaluateCode P T R (global_before (turns P T R f g codes ! j)) (codes ! j) f"
proof (induction codes arbitrary: g j)
  case Nil
  then show ?case by simp
next
  case (Cons code rest)
  let ?r = "evaluateCode P T R g code f"
  show ?case
  proof (cases j)
    case 0
    then show ?thesis by (simp add: Let_def evaluateCode_global_before)
  next
    case (Suc j')
    with Cons.prems have fin: "completion ?r \<noteq> NeverReturns"
      by (auto simp: Let_def split: if_splits)
    with Cons.prems Suc have "j' < length (turns P T R f (global_after ?r) rest)"
      by (simp add: Let_def)
    from Cons.IH [OF this] Suc fin show ?thesis by (simp add: Let_def)
  qed
qed

lemma turns_first:
  "0 < length (turns P T R f g codes) \<Longrightarrow> global_before (turns P T R f g codes ! 0) = g"
  by (cases codes) (simp_all add: Let_def evaluateCode_global_before)

lemma turns_consecutive:
  "Suc j < length (turns P T R f g codes) \<Longrightarrow>
   global_before (turns P T R f g codes ! Suc j) = global_after (turns P T R f g codes ! j)"
proof (induction codes arbitrary: g j)
  case Nil
  then show ?case by simp
next
  case (Cons code rest)
  let ?r = "evaluateCode P T R g code f"
  from Cons.prems have fin: "completion ?r \<noteq> NeverReturns"
    by (auto simp: Let_def split: if_splits)
  show ?case
  proof (cases j)
    case 0
    with Cons.prems fin have "0 < length (turns P T R f (global_after ?r) rest)"
      by (simp add: Let_def)
    from turns_first [OF this] 0 fin show ?thesis by (simp add: Let_def)
  next
    case (Suc j')
    with Cons.prems fin have "Suc j' < length (turns P T R f (global_after ?r) rest)"
      by (simp add: Let_def)
    from Cons.IH [OF this] Suc fin show ?thesis by (simp add: Let_def)
  qed
qed

lemma turns_global_after:
  assumes "j < length (turns P T R f g codes)"
  shows "global_after (turns P T R f g codes ! j) =
     (case T f (resultCode P (codes ! j)) of
        Done compiledCode \<Rightarrow> snd (R compiledCode (global_before (turns P T R f g codes ! j)))
      | Raised error \<Rightarrow> global_before (turns P T R f g codes ! j)
      | Hangs \<Rightarrow> global_before (turns P T R f g codes ! j))"
proof -
  let ?t = "turns P T R f g codes ! j"
  from assms have "?t = evaluateCode P T R (global_before ?t) (codes ! j) f"
    by (rule turns_nth)
  then have "global_after ?t =
      global_after (evaluateCode P T R (global_before ?t) (codes ! j) f)"
    by simp
  then show ?thesis by (simp add: evaluateCode_global_after)
qed

lemma turns_keep:
  fixes R :: "('h, 'v) runner"
  assumes "j < length (turns P T R f g codes)"
    and "k \<in> dom (global_before (turns P T R f g codes ! j))"
    and "\<forall>code'. RunInThisContext code' \<in> set (trace (turns P T R f g codes ! j)) \<longrightarrow>
           k \<in> dom (snd (R code' (global_before (turns P T R f g codes ! j))))"
  shows "k \<in> dom (global_after (turns P T R f g codes ! j))"
proof -
  let ?t = "turns P T R f g codes ! j"
  let ?e = "evaluateCode P T R (global_before ?t) (codes ! j) f"
  from assms(1) have eq: "?t = ?e" by (rule turns_nth)
  from assms(3) eq
  have "\<forall>code'. RunInThisContext code' \<in> set (trace ?e) \<longrightarrow>
          k \<in> dom (snd (R code' (global_before ?t)))"
    by simp
  with assms(2) have "k \<in> dom (global_after ?e)" by (rule evaluateCode_keeps)
  with eq show ?thesis by simp
qed

lemma sample_session_keeps:
  "turns sample_processTopLevelAwait sample_tsCompiler sample_runInThisContext ''repl''
     sample_global [''x = 5'', ''throw null'', ''x''] =
   [\<lparr>global_before = Map.empty,
     trace = [ProcessTopLevelAwait ''x = 5'', TsCompile ''repl'' ''x = 5'',
              RunInThisContext ''x = 5'', Callback ErrNull (ResValue ''5'')],
     global_after = [''x'' \<mapsto> Plain ''5''], completion = Returned\<rparr>,
    \<lparr>global_before = [''x'' \<mapsto> Plain ''5''],
     trace = [ProcessTopLevelAwait ''throw null'', TsCompile ''repl'' ''throw null'',
              RunInThisContext ''throw null''],
     global_after = [''x'' \<mapsto> Plain ''5''], completion = Escaped TypeError\<rparr>,
    \<lparr>global_before = [''x'' \<mapsto> Plain ''5''],
     trace = [ProcessTopLevelAwait ''x'', TsCompile ''repl'' ''x'',
              RunInThisContext ''x'', Callback ErrNull (ResValue ''5'')],
     global_after = [''x'' \<mapsto> Plain ''5''], completion = Returned\<rparr>]"
  by (simp add: evaluateCode_def compile_unfold resultCode_def
      sample_tsCompiler_def sample_processTopLevelAwait_def
      sample_runInThisContext_def sample_global_def Let_def evaluateCode_catch_def)

lemma sample_session_deletes:
  "turns sample_processTopLevelAwait sample_tsCompiler sample_runInThisContext ''repl''
     sample_global [''x = 5'', ''delete x'', ''x''] =
   [\<lparr>global_before = Map.empty,
     trace = [ProcessTopLevelAwait ''x = 5'', TsCompile ''repl'' ''x = 5'',
              RunInThisContext ''x = 5'', Callback ErrNull (ResValue ''5'')],
     global_after = [''x'' \<mapsto> Plain ''5''], completion = Returned\<rparr>,
    \<lparr>global_before = [''x'' \<mapsto> Plain ''5''],
     trace = [ProcessTopLevelAwait ''delete x'', TsCompile ''repl'' ''delete x'',
              RunInThisContext ''delete x'', Callback ErrNull (ResValue ''true'')],
     global_after = Map.empty, completion = Returned\<rparr>,
    \<lparr>global_before = Map.empty,
     trace = [ProcessTopLevelAwait ''x'', TsCompile ''repl'' ''x'',
              RunInThisContext ''x'',
              Callback (ErrThrown (ErrorObject ''ReferenceError'' ''x is not defined'')) ResNull],
     global_after = Map.empty, completion = Returned\<rparr>]"
  by (simp add: evaluateCode_def compile_unfold resultCode_def
      sample_tsCompiler_def sample_processTopLevelAwait_def
      sample_runInThisContext_def sample_global_def Let_def evaluateCode_catch_object)

text \<open>
  Claim C3, as amended. The context is never replaced or cleared between turns: every
  turn is evaluated in the context exactly as the turn before left it, whether that turn
  succeeded, failed or let an exception escape, and within a turn the context changes
  only through the run of the compiled text. A name bound after turn \<open>n\<close> is therefore
  bound when turn \<open>m > n\<close> is evaluated, provided that no run made by a turn in between,
  from the context that turn started in, unbinds it.
\<close>

theorem binding_visible_to_later_turns:
  fixes R :: "('h, 'v) runner"
  shows "(\<forall>j. Suc j < length (turns P T R f g codes) \<longrightarrow>
            global_before (turns P T R f g codes ! Suc j) =
            global_after (turns P T R f g codes ! j))
       \<and> (\<forall>j. j < length (turns P T R f g codes) \<longrightarrow>
            global_after (turns P T R f g codes ! j) =
              (case T f (resultCode P (codes ! j)) of
                 Done compiledCode \<Rightarrow>
                   snd (R compiledCode (global_before (turns P T R f g codes ! j)))
               | Raised error \<Rightarrow> global_before (turns P T R f g codes ! j)
               | Hangs \<Rightarrow> global_before (turns P T R f g codes ! j)))
       \<and> (n < m \<longrightarrow> m < length (turns P T R f g codes) \<longrightarrow>
          k \<in> dom (global_after (turns P T R f g codes ! n)) \<longrightarrow>
          (\<forall>j code'. n < j \<and> j < m \<longrightarrow>
             RunInThisContext code' \<in> set (trace (turns P T R f g codes ! j)) \<longrightarrow>
             k \<in> dom (global_before (turns P T R f g codes ! j)) \<longrightarrow>
             k \<in> dom (snd (R code' (global_before (turns P T R f g codes ! j))))) \<longrightarrow>
          k \<in> dom (global_before (turns P T R f g codes ! m)))"
proof (intro conjI allI impI)
  fix j
  assume "Suc j < length (turns P T R f g codes)"
  then show "global_before (turns P T R f g codes ! Suc j) =
             global_after (turns P T R f g codes ! j)"
    by (rule turns_consecutive)
next
  fix j
  assume "j < length (turns P T R f g codes)"
  then show "global_after (turns P T R f g codes ! j) =
              (case T f (resultCode P (codes ! j)) of
                 Done compiledCode \<Rightarrow>
                   snd (R compiledCode (global_before (turns P T R f g codes ! j)))
               | Raised error \<Rightarrow> global_before (turns P T R f g codes ! j)
               | Hangs \<Rightarrow> global_before (turns P T R f g codes ! j))"
    by (rule turns_global_after)
next
  let ?rs = "turns P T R f g codes"
  assume nm: "n < m" and len: "m < length ?rs"
    and bound: "k \<in> dom (global_after (?rs ! n))"
    and frame: "\<forall>j code'. n < j \<and> j < m \<longrightarrow>
             RunInThisContext code' \<in> set (trace (?rs ! j)) \<longrightarrow>
             k \<in> dom (global_before (?rs ! j)) \<longrightarrow>
             k \<in> dom (snd (R code' (global_before (?rs ! j))))"
  have step: "n < i \<Longrightarrow> i \<le> m \<Longrightarrow> k \<in> dom (global_before (?rs ! i))" for i
  proof (induction i)
    case 0
    then show ?case by simp
  next
    case (Suc i)
    from Suc.prems len have lt: "Suc i < length ?rs" and i: "i < length ?rs" by simp_all
    from lt have next_turn: "global_before (?rs ! Suc i) = global_after (?rs ! i)"
      by (rule turns_consecutive)
    show ?case
    proof (cases "i = n")
      case True
      with bound next_turn show ?thesis by simp
    next
      case False
      with Suc.prems have ni: "n < i" and im: "i < m" by simp_all
      with Suc.IH have kb: "k \<in> dom (global_before (?rs ! i))" by simp
      from frame ni im kb
      have "\<forall>code'. RunInThisContext code' \<in> set (trace (?rs ! i)) \<longrightarrow>
              k \<in> dom (snd (R code' (global_before (?rs ! i))))"
        by blast
      with i kb have "k \<in> dom (global_after (?rs ! i))" by (rule turns_keep)
      with next_turn show ?thesis by simp
    qed
  qed
  from nm show "k \<in> dom (global_before (?rs ! m))" by (simp add: step)
qed

text \<open>After \<^verbatim>\<open>x = 5\<close> and a turn that throws \<^verbatim>\<open>null\<close>, whose exception escapes, the third
  turn is evaluated with \<^verbatim>\<open>x\<close> bound.\<close>

theorem binding_visible_witness:
  "''x'' \<in> dom (global_after
       (turns sample_processTopLevelAwait sample_tsCompiler sample_runInThisContext ''repl''
          sample_global [''x = 5'', ''throw null'', ''x''] ! 0))
   \<and> completion
       (turns sample_processTopLevelAwait sample_tsCompiler sample_runInThisContext ''repl''
          sample_global [''x = 5'', ''throw null'', ''x''] ! 1) = Escaped TypeError
   \<and> ''x'' \<in> dom (global_before
       (turns sample_processTopLevelAwait sample_tsCompiler sample_runInThisContext ''repl''
          sample_global [''x = 5'', ''throw null'', ''x''] ! 2))"
proof -
  let ?rs = "turns sample_processTopLevelAwait sample_tsCompiler sample_runInThisContext ''repl''
          sample_global [''x = 5'', ''throw null'', ''x'']"
  have h1: "(0::nat) < 2" by simp
  have h2: "2 < length ?rs" unfolding sample_session_keeps by simp
  have h3: "''x'' \<in> dom (global_after (?rs ! 0))" unfolding sample_session_keeps by simp
  have h4: "\<forall>j code'. 0 < j \<and> j < 2 \<longrightarrow>
           RunInThisContext code' \<in> set (trace (?rs ! j)) \<longrightarrow>
           ''x'' \<in> dom (global_before (?rs ! j)) \<longrightarrow>
           ''x'' \<in> dom (snd (sample_runInThisContext code' (global_before (?rs ! j))))"
  proof (intro allI impI)
    fix j :: nat and code'
    assume "0 < j \<and> j < 2"
      and ran: "RunInThisContext code' \<in> set (trace (?rs ! j))"
      and kb: "''x'' \<in> dom (global_before (?rs ! j))"
    then have j: "j = 1" by simp
    with ran have "code' = ''throw null''" unfolding sample_session_keeps by simp
    with kb show "''x'' \<in> dom (snd (sample_runInThisContext code' (global_before (?rs ! j))))"
      by (simp add: sample_runInThisContext_def)
  qed
  have h5: "completion (?rs ! 1) = Escaped TypeError" unfolding sample_session_keeps by simp
  from binding_visible_to_later_turns
         [of sample_processTopLevelAwait sample_tsCompiler sample_runInThisContext "''repl''"
             sample_global "[''x = 5'', ''throw null'', ''x'']" 0 2 "''x''"]
  have "0 < (2::nat) \<longrightarrow> 2 < length ?rs \<longrightarrow> ''x'' \<in> dom (global_after (?rs ! 0)) \<longrightarrow>
        (\<forall>j code'. 0 < j \<and> j < 2 \<longrightarrow>
           RunInThisContext code' \<in> set (trace (?rs ! j)) \<longrightarrow>
           ''x'' \<in> dom (global_before (?rs ! j)) \<longrightarrow>
           ''x'' \<in> dom (snd (sample_runInThisContext code' (global_before (?rs ! j))))) \<longrightarrow>
        ''x'' \<in> dom (global_before (?rs ! 2))"
    by (elim conjE)
  with h1 h2 h3 h4 have "''x'' \<in> dom (global_before (?rs ! 2))" by blast
  with h3 h5 show ?thesis by simp
qed

text \<open>
  Claim C3 as stated fails when a turn in between removes the binding: after
  \<^verbatim>\<open>x = 5\<close> and \<^verbatim>\<open>delete x\<close>, the third turn is evaluated without \<^verbatim>\<open>x\<close>.
\<close>

theorem binding_removed_counterexample:
  "length (turns sample_processTopLevelAwait sample_tsCompiler sample_runInThisContext ''repl''
     sample_global [''x = 5'', ''delete x'', ''x'']) = 3
   \<and> completion (turns sample_processTopLevelAwait sample_tsCompiler sample_runInThisContext ''repl''
     sample_global [''x = 5'', ''delete x'', ''x''] ! 0) = Returned
   \<and> ''x'' \<in> dom (global_after
       (turns sample_processTopLevelAwait sample_tsCompiler sample_runInThisContext ''repl''
          sample_global [''x = 5'', ''delete x'', ''x''] ! 0))
   \<and> ''x'' \<notin> dom (global_before
       (turns sample_processTopLevelAwait sample_tsCompiler sample_runInThisContext ''repl''
          sample_global [''x = 5'', ''delete x'', ''x''] ! 2))"
  unfolding sample_session_deletes by simp

section \<open>Properties of the custom-method registry\<close>

lemma map_of_set_property: "map_of (set_property key v al) = (map_of al)(key \<mapsto> v)"
  by (induction al) (auto simp: fun_eq_iff)

lemma register_entries_started:
  "server r = Some s \<Longrightarrow>
   register_entries es r =
     Inr (r\<lparr>global := fold (\<lambda>(methodName, handler, options) g.
                              g(methodName \<mapsto> CustomMethod handler)) es (global r)\<rparr>)"
  by (induction es arbitrary: r) auto

text \<open>\<^verbatim>\<open>run\<close> never fails: it sets the server before anything reads it.\<close>

lemma run_started:
  "run r =
     Inr (r\<lparr>server := Some \<lparr>prompt = ''> '', useGlobal = True,
               commands = [(''customApi'',
                            ''View a list of available global methods/properties'')]\<rparr>,
            global := fold (\<lambda>(methodName, handler, options) g.
                              g(methodName \<mapsto> CustomMethod handler))
                        (customMethods r) (global r)\<rparr>)"
  by (simp add: run_def registerCustomMethods_def startReplServer_def register_entries_started
      defineCustomCommands_def)

text \<open>No entry of the registry ever gets the key \<^verbatim>\<open>__proto__\<close>.\<close>

lemma set_property_keys: "fst ` set (set_property key v al) = insert key (fst ` set al)"
proof -
  have "fst ` set (set_property key v al) = dom (map_of (set_property key v al))"
    by (simp add: dom_map_of_conv_image_fst)
  also have "\<dots> = insert key (dom (map_of al))"
    by (simp add: map_of_set_property)
  finally show ?thesis by (simp add: dom_map_of_conv_image_fst)
qed

lemma addMethod_no_proto_entry:
  "''__proto__'' \<notin> fst ` set (customMethods r) \<Longrightarrow>
   ''__proto__'' \<notin> fst ` set (customMethods (addMethod n h opts r))"
  by (simp add: addMethod_def set_property_keys)

text \<open>
  The start-up script (\<^verbatim>\<open>unnamed/part_001\<close>) registers \<^verbatim>\<open>notify\<close> and then calls \<^verbatim>\<open>run\<close>:
  the method is bound in the context.
\<close>

lemma registered_before_run_is_bound:
  "run (addMethod ''notify'' h opts (new_Repl g)) =
     Inr \<lparr>customMethods = [(''notify'', h, opts)], customMethods_prototype = None,
          server = Some \<lparr>prompt = ''> '', useGlobal = True,
             commands = [(''customApi'', ''View a list of available global methods/properties'')]\<rparr>,
          global = g(''notify'' \<mapsto> CustomMethod h)\<rparr>"
  by (simp add: run_started new_Repl_def addMethod_def)

text \<open>For every method name other than \<^verbatim>\<open>__proto__\<close>, a second registration replaces the
  first and touches nothing else.\<close>

lemma addMethod_twice_ordinary:
  "n \<noteq> ''__proto__'' \<Longrightarrow>
   map_of (customMethods (addMethod n h2 o2 (addMethod n h1 o1 r))) =
     (map_of (customMethods r))(n \<mapsto> (h2, o2))
   \<and> customMethods_prototype (addMethod n h2 o2 (addMethod n h1 o1 r)) =
     customMethods_prototype r"
  by (simp add: addMethod_def map_of_set_property)

text \<open>
  Claim C8. Registering a name twice leaves the registry with the second handler and
  options under that name, and raises no error. The code does not do this for the name
  \<^verbatim>\<open>__proto__\<close>: both assignments replace the prototype of the registry object, the
  registry has no entry at all afterwards, and \<open>run\<close> binds nothing.
\<close>

theorem addMethod_proto_not_stored:
  "addMethod ''__proto__'' ''h2'' ()
     (addMethod ''__proto__'' ''h1'' () (new_Repl sample_global)) =
     \<lparr>customMethods = [], customMethods_prototype = Some (''h2'', ()),
      server = None, global = sample_global\<rparr>
   \<and> map_of (customMethods
        (addMethod ''__proto__'' ''h2'' ()
           (addMethod ''__proto__'' ''h1'' () (new_Repl sample_global)))) ''__proto__'' = None
   \<and> run (addMethod ''__proto__'' ''h2'' ()
           (addMethod ''__proto__'' ''h1'' () (new_Repl sample_global))) =
     Inr \<lparr>customMethods = [], customMethods_prototype = Some (''h2'', ()),
          server = Some \<lparr>prompt = ''> '', useGlobal = True,
             commands = [(''customApi'', ''View a list of available global methods/properties'')]\<rparr>,
          global = sample_global\<rparr>"
  by (simp add: run_started new_Repl_def addMethod_def)

text \<open>
  Claim C7, as amended. \<open>addMethod\<close> called after \<open>run\<close> leaves the context and the server
  as they are, whatever the method name: the method is not bound. For every name other
  than \<^verbatim>\<open>__proto__\<close> it stores the entry in the registry. Binding happens in \<open>run\<close> alone.
\<close>

theorem addMethod_after_run:
  assumes "run r0 = Inr r"
  shows "global (addMethod n h opts r) = global r \<and>
         server (addMethod n h opts r) = server r \<and>
         (n \<noteq> ''__proto__'' \<longrightarrow>
            map_of (customMethods (addMethod n h opts r)) n = Some (h, opts))"
  by (simp add: addMethod_def map_of_set_property)

text \<open>A fresh session is started, then \<^verbatim>\<open>notify\<close> is registered: the entry is in the
  registry and the context stays empty.\<close>

theorem addMethod_after_run_witness:
  "run (new_Repl sample_global :: (string, unit, string) repl) =
     Inr \<lparr>customMethods = [], customMethods_prototype = None,
          server = Some \<lparr>prompt = ''> '', useGlobal = True,
             commands = [(''customApi'', ''View a list of available global methods/properties'')]\<rparr>,
          global = sample_global\<rparr>
   \<and> ''notify'' \<noteq> ''__proto__''
   \<and> global (addMethod ''notify'' ''handler'' ()
        \<lparr>customMethods = [], customMethods_prototype = None,
          server = Some \<lparr>prompt = ''> '', useGlobal = True,
             commands = [(''customApi'', ''View a list of available global methods/properties'')]\<rparr>,
          global = sample_global\<rparr>) = sample_global
   \<and> map_of (customMethods (addMethod ''notify'' ''handler'' ()
        \<lparr>customMethods = [], customMethods_prototype = None,
          server = Some \<lparr>prompt = ''> '', useGlobal = True,
             commands = [(''customApi'', ''View a list of available global methods/properties'')]\<rparr>,
          global = sample_global\<rparr>)) ''notify'' = Some (''handler'', ())"
proof -
  have h: "run (new_Repl sample_global :: (string, unit, string) repl) =
     Inr \<lparr>customMethods = [], customMethods_prototype = None,
          server = Some \<lparr>prompt = ''> '', useGlobal = True,
             commands = [(''customApi'', ''View a list of available global methods/properties'')]\<rparr>,
          global = sample_global\<rparr>"
    by (simp add: run_started new_Repl_def)
  have ne: "''notify'' \<noteq> ''__proto__''" by simp
  from addMethod_after_run [OF h, of "''notify''" "''handler''" "()"] h ne
  show ?thesis by simp
qed

text \<open>
  Claim C7 as stated fails: after \<open>run\<close> on a fresh session, \<open>addMethod\<close> for \<^verbatim>\<open>notify\<close>
  leaves the name unbound in the context.
\<close>

theorem late_addMethod_counterexample:
  "\<not> isl (run (new_Repl sample_global :: (string, unit, string) repl)) \<and>
   global (addMethod ''notify'' ''handler'' ()
             (projr (run (new_Repl sample_global)))) ''notify'' = None"
  by (simp add: run_started new_Repl_def addMethod_def sample_global_def)

end
